theory Spec2Isabelle
  imports Main
begin

section \<open>Strings and paths\<close>

text \<open>
  The script is \<^verbatim>\<open>Utilities/build-script-helper.py\<close>. Strings are Python \<^verbatim>\<open>str\<close> values
  over ASCII text, modelled as \<^typ>\<open>string\<close>. The functions of this section model the
  library calls the script makes on strings: \<^verbatim>\<open>sep.join\<close>, \<^verbatim>\<open>str.strip\<close>,
  \<^verbatim>\<open>'%d' % n\<close> and the POSIX flavour of \<^verbatim>\<open>os.path\<close>.
\<close>

fun join_str :: "string \<Rightarrow> string list \<Rightarrow> string" where
  "join_str sep [] = []"
| "join_str sep [x] = x"
| "join_str sep (x # y # ys) = x @ sep @ join_str sep (y # ys)"

fun split_sep :: "char \<Rightarrow> string \<Rightarrow> string list" where
  "split_sep c [] = [[]]"
| "split_sep c (x # xs) =
     (if x = c then [] # split_sep c xs
      else (case split_sep c xs of [] \<Rightarrow> [[x]] | y # ys \<Rightarrow> (x # y) # ys))"

definition is_space :: "char \<Rightarrow> bool" where
  "is_space c = (let n = (of_char c :: nat) in (9 \<le> n \<and> n \<le> 13) \<or> (28 \<le> n \<and> n \<le> 32))"

definition strip :: "string \<Rightarrow> string" where
  "strip s = rev (dropWhile is_space (rev (dropWhile is_space s)))"

fun show_nat :: "nat \<Rightarrow> string" where
  "show_nat n =
     (if n < 10 then [char_of (48 + n)]
      else show_nat (n div 10) @ [char_of (48 + n mod 10)])"

definition show_int :: "int \<Rightarrow> string" where
  "show_int i = (if i < 0 then CHR ''-'' # show_nat (nat (- i)) else show_nat (nat i))"

definition starts_with :: "string \<Rightarrow> string \<Rightarrow> bool" where
  "starts_with p s = (take (length p) s = p)"

definition path_join :: "string \<Rightarrow> string \<Rightarrow> string" where
  \<comment> \<open>\<^verbatim>\<open>os.path.join(a, b)\<close>\<close>
  "path_join a b =
     (if starts_with ''/'' b then b
      else if a = [] \<or> last a = CHR ''/'' then a @ b
      else a @ ''/'' @ b)"

definition basename :: "string \<Rightarrow> string" where
  "basename p = rev (takeWhile (\<lambda>c. c \<noteq> CHR ''/'') (rev p))"

definition dirname :: "string \<Rightarrow> string" where
  "dirname p =
     (let head = rev (dropWhile (\<lambda>c. c \<noteq> CHR ''/'') (rev p))
      in if head \<noteq> [] \<and> head \<noteq> replicate (length head) CHR ''/''
         then rev (dropWhile (\<lambda>c. c = CHR ''/'') (rev head))
         else head)"

definition norm_step :: "bool \<Rightarrow> string list \<Rightarrow> string \<Rightarrow> string list" where
  \<comment> \<open>one round of the loop of \<^verbatim>\<open>posixpath.normpath\<close> over the components\<close>
  "norm_step initial_slashes new_comps part =
     (if part = [] \<or> part = ''.'' then new_comps
      else if part \<noteq> ''..'' \<or> (\<not> initial_slashes \<and> new_comps = [])
                \<or> (new_comps \<noteq> [] \<and> last new_comps = ''..'')
      then new_comps @ [part]
      else if new_comps \<noteq> [] then butlast new_comps
      else new_comps)"

definition normpath :: "string \<Rightarrow> string" where
  "normpath path =
     (if path = [] then ''.''
      else
        let initial_slashes =
              (if starts_with ''/'' path
               then (if starts_with ''//'' path \<and> \<not> starts_with ''///'' path then 2 else 1)
               else (0::nat));
            comps = foldl (norm_step (initial_slashes \<noteq> 0)) [] (split_sep CHR ''/'' path);
            p = replicate initial_slashes CHR ''/'' @ join_str ''/'' comps
        in if p = [] then ''.'' else p)"

definition abspath_in :: "string \<Rightarrow> string \<Rightarrow> string" where
  \<comment> \<open>\<^verbatim>\<open>os.path.abspath(path)\<close> when \<^verbatim>\<open>os.getcwd()\<close> is \<open>cwd\<close>\<close>
  "abspath_in cwd path =
     normpath (if starts_with ''/'' path then path else path_join cwd path)"

section \<open>Values, exceptions, the host and the interpreter state\<close>

text \<open>
  An attribute of the \<^verbatim>\<open>argparse.Namespace\<close> is either missing (reading it raises
  \<^verbatim>\<open>AttributeError\<close>) or holds a value. Attributes that may hold Python's
  \<^verbatim>\<open>None\<close> carry an \<^typ>\<open>'a option\<close>.
\<close>

datatype 'a attr = Missing | Attr 'a

datatype action = Clean | Build | Test

record namespace =
  command :: "string option attr"
  func :: "action attr"
  build_dir :: "string attr"
  verbose :: "bool attr"
  swiftc_path :: "string option attr"
  release :: "bool attr"
  parallel :: "bool attr"
  filter_attr :: "string list attr"
  target_dir :: "string attr"
  conf :: "string attr"
  bin_dir :: "string attr"
  llbuild_build_dir :: "string option attr"
  llbuild_source_dir :: "string option attr"
  llbuild_link_framework :: "bool attr"
  bootstrap_dir :: "string attr"
  install_prefixes :: "string list attr"
  install_libspm :: "bool attr"

datatype exc =
    SystemExit int
  | AttributeError string
  | UnboundLocalError string
  | NameError string
  | TypeError
  | IndexError
  | CalledProcessError int "string list"
  | OSError nat
  | PlainException

definition exit_code :: "exc \<Rightarrow> int" where
  \<comment> \<open>the status the interpreter exits with when the exception reaches the top level\<close>
  "exit_code e = (case e of SystemExit n \<Rightarrow> n | _ \<Rightarrow> 1)"

definition exit_status :: "exc + 'a \<Rightarrow> int" where
  "exit_status r = (case r of Inl e \<Rightarrow> exit_code e | Inr _ \<Rightarrow> 0)"

definition EEXIST :: nat where
  "EEXIST = 17"

datatype proc_result = Exited int string | SpawnFailed nat

text \<open>
  A record of one child process: its command vector, its working directory, how it ended,
  and whether it was started by \<^verbatim>\<open>call\<close> (otherwise by \<^verbatim>\<open>call_output\<close> or at module load).
\<close>

datatype proc_record =
  Proc (pr_cmd: "string list") (pr_cwd: "string option") (pr_result: proc_result) (pr_via_call: bool)

definition failed :: "proc_record \<Rightarrow> bool" where
  "failed p = (case pr_result p of Exited n _ \<Rightarrow> n \<noteq> 0 | SpawnFailed _ \<Rightarrow> True)"

text \<open>
  The host: what the operating system answers. The world \<open>'w\<close> is whatever the file
  system and the child processes depend on; a system call returns its result and the
  world after it. A failing call returns its \<^verbatim>\<open>errno\<close>.
\<close>

record 'w host =
  platform_system :: string
  argv0 :: string
  script_path :: string
  os_getcwd :: "'w \<Rightarrow> string"
  os_realpath :: "'w \<Rightarrow> string \<Rightarrow> string"
  os_isfile :: "'w \<Rightarrow> string \<Rightarrow> bool"
  os_isdir :: "'w \<Rightarrow> string \<Rightarrow> bool"
  os_exists :: "'w \<Rightarrow> string \<Rightarrow> bool"
  os_makedirs :: "'w \<Rightarrow> string \<Rightarrow> nat option \<times> 'w"
  os_symlink :: "'w \<Rightarrow> string \<Rightarrow> string \<Rightarrow> nat option \<times> 'w"
  os_remove :: "'w \<Rightarrow> string \<Rightarrow> nat option \<times> 'w"
  spawn :: "'w \<Rightarrow> string list \<Rightarrow> string option \<Rightarrow> proc_result \<times> 'w"

text \<open>
  The state of the running script: the world, the process environment
  (\<^verbatim>\<open>os.environ\<close>), the lines printed so far and the child processes run so far.
\<close>

record 'w state =
  world :: 'w
  environ :: "string \<rightharpoonup> string"
  stdout :: "string list"
  executed :: "proc_record list"

record globals =
  g_project_root :: string
  g_source_root :: string
  g_default_sysroot :: "string option"

type_synonym ('w, 'a) py = "'w state \<Rightarrow> (exc + 'a) \<times> 'w state"

definition ret :: "'a \<Rightarrow> ('w, 'a) py" where
  "ret x s = (Inr x, s)"

definition throw :: "exc \<Rightarrow> ('w, 'a) py" where
  "throw e s = (Inl e, s)"

definition lift :: "exc + 'a \<Rightarrow> ('w, 'a) py" where
  "lift r s = (r, s)"

definition bind_py :: "('w, 'a) py \<Rightarrow> ('a \<Rightarrow> ('w, 'b) py) \<Rightarrow> ('w, 'b) py" where
  "bind_py m f s = (case m s of (Inl e, s') \<Rightarrow> (Inl e, s') | (Inr x, s') \<Rightarrow> f x s')"

definition try_except :: "('w, 'a) py \<Rightarrow> (exc \<Rightarrow> ('w, 'a) py) \<Rightarrow> ('w, 'a) py" where
  \<comment> \<open>a bare \<^verbatim>\<open>except:\<close> catches every exception\<close>
  "try_except m handler s = (case m s of (Inl e, s') \<Rightarrow> handler e s' | (Inr x, s') \<Rightarrow> (Inr x, s'))"

definition getattr :: "string \<Rightarrow> 'a attr \<Rightarrow> exc + 'a" where
  "getattr name a = (case a of Missing \<Rightarrow> Inl (AttributeError name) | Attr v \<Rightarrow> Inr v)"

definition truthy :: "string option \<Rightarrow> bool" where
  \<comment> \<open>\<^verbatim>\<open>None\<close> and the empty string are false\<close>
  "truthy v = (case v of None \<Rightarrow> False | Some s \<Rightarrow> s \<noteq> [])"

definition as_str :: "string option \<Rightarrow> exc + string" where
  \<comment> \<open>\<^verbatim>\<open>None\<close> where a \<^verbatim>\<open>str\<close> is needed (\<^verbatim>\<open>"..." + x\<close>, \<^verbatim>\<open>os.path.join(x, ...)\<close>)\<close>
  "as_str v = (case v of None \<Rightarrow> Inl TypeError | Some s \<Rightarrow> Inr s)"

definition py_str :: "string option \<Rightarrow> string" where
  \<comment> \<open>\<^verbatim>\<open>"%s" % x\<close>\<close>
  "py_str v = (case v of None \<Rightarrow> ''None'' | Some s \<Rightarrow> s)"

definition print :: "string \<Rightarrow> ('w, unit) py" where
  "print line s = (Inr (), s\<lparr>stdout := stdout s @ [line]\<rparr>)"

definition abspath :: "'w host \<Rightarrow> string \<Rightarrow> ('w, string) py" where
  "abspath h path s = (Inr (abspath_in (os_getcwd h (world s)) path), s)"

definition check_call :: "'w host \<Rightarrow> string list \<Rightarrow> string option \<Rightarrow> ('w, int) py" where
  \<comment> \<open>\<^verbatim>\<open>subprocess.check_call\<close>: returns 0 or raises\<close>
  "check_call h cmd cwd s =
     (case spawn h (world s) cmd cwd of (res, w') \<Rightarrow>
        let s' = s\<lparr>world := w', executed := executed s @ [Proc cmd cwd res True]\<rparr>
        in (case res of
              Exited n out \<Rightarrow> if n = 0 then (Inr 0, s') else (Inl (CalledProcessError n cmd), s')
            | SpawnFailed en \<Rightarrow> (Inl (OSError en), s')))"

definition check_output :: "'w host \<Rightarrow> string list \<Rightarrow> string option \<Rightarrow> ('w, string) py" where
  \<comment> \<open>\<^verbatim>\<open>subprocess.check_output\<close>: returns what the child printed or raises\<close>
  "check_output h cmd cwd s =
     (case spawn h (world s) cmd cwd of (res, w') \<Rightarrow>
        let s' = s\<lparr>world := w', executed := executed s @ [Proc cmd cwd res False]\<rparr>
        in (case res of
              Exited n out \<Rightarrow> if n = 0 then (Inr out, s') else (Inl (CalledProcessError n cmd), s')
            | SpawnFailed en \<Rightarrow> (Inl (OSError en), s')))"

definition fs_call :: "('w \<Rightarrow> nat option \<times> 'w) \<Rightarrow> ('w, unit) py" where
  \<comment> \<open>a file-system call that raises \<^verbatim>\<open>OSError\<close> with its errno when it fails\<close>
  "fs_call f s =
     (case f (world s) of (r, w') \<Rightarrow>
        ((case r of None \<Rightarrow> Inr () | Some en \<Rightarrow> Inl (OSError en)), s\<lparr>world := w'\<rparr>))"

section \<open>Shell helper functions\<close>

definition note_fn :: "'w host \<Rightarrow> string \<Rightarrow> ('w, unit) py" where
  "note_fn h message = print (''--- '' @ basename (argv0 h) @ '': note: '' @ message)"

definition error :: "'w host \<Rightarrow> string \<Rightarrow> ('w, 'a) py" where
  "error h message =
     bind_py (print (''--- '' @ basename (argv0 h) @ '': error: '' @ message))
       (\<lambda>_. throw (SystemExit 1))"

definition symlink_force :: "'w host \<Rightarrow> string \<Rightarrow> string \<Rightarrow> ('w, unit) py" where
  "symlink_force h target link_name0 s =
     (let link_name = (if os_isdir h (world s) link_name0
                       then path_join link_name0 (basename target) else link_name0)
      in try_except (fs_call (\<lambda>w. os_symlink h w target link_name))
           (\<lambda>e. case e of
                  OSError en \<Rightarrow>
                    if en = EEXIST
                    then bind_py (fs_call (\<lambda>w. os_remove h w link_name))
                           (\<lambda>_. fs_call (\<lambda>w. os_symlink h w target link_name))
                    else throw e
                | _ \<Rightarrow> throw e) s)"

definition mkdir_p :: "'w host \<Rightarrow> string \<Rightarrow> ('w, unit) py" where
  "mkdir_p h path =
     try_except (fs_call (\<lambda>w. os_makedirs h w path))
       (\<lambda>e. case e of
              OSError en \<Rightarrow> if en \<noteq> EEXIST then throw e else ret ()
            | _ \<Rightarrow> throw e)"

definition call_except :: "'w host \<Rightarrow> namespace \<Rightarrow> string list \<Rightarrow> int option \<Rightarrow> ('w, unit) py" where
  \<comment> \<open>the \<^verbatim>\<open>except:\<close> block of \<^verbatim>\<open>call\<close>; \<open>result\<close> is the local variable, \<open>None\<close> while unbound\<close>
  "call_except h args cmd result =
     bind_py (lift (getattr ''verbose'' (verbose args))) (\<lambda>v.
     bind_py (if \<not> v then print (join_str '' '' cmd) else ret ()) (\<lambda>_.
     case result of
       None \<Rightarrow> throw (UnboundLocalError ''result'')
     | Some r \<Rightarrow> error h (''command failed with exit status '' @ show_int r)))"

definition call :: "'w host \<Rightarrow> namespace \<Rightarrow> string list \<Rightarrow> string option \<Rightarrow> ('w, unit) py" where
  "call h args cmd cwd =
     bind_py (lift (getattr ''verbose'' (verbose args))) (\<lambda>v.
     bind_py (if v then print (join_str '' '' cmd) else ret ()) (\<lambda>_.
     (\<lambda>s. case check_call h cmd cwd s of
            (Inr result, s') \<Rightarrow>
              if result \<noteq> 0
              then call_except h args cmd (Some result) s'
              else (Inr (), s')
          | (Inl e, s') \<Rightarrow> call_except h args cmd None s')))"

definition call_output :: "'w host \<Rightarrow> namespace \<Rightarrow> string list \<Rightarrow> string option \<Rightarrow> ('w, string) py" where
  "call_output h args cmd cwd =
     bind_py (lift (getattr ''verbose'' (verbose args))) (\<lambda>v.
     bind_py (if v then print (join_str '' '' cmd) else ret ()) (\<lambda>_.
     check_output h cmd cwd))"

section \<open>Argument parsing\<close>

text \<open>
  The parsers \<^verbatim>\<open>main\<close> builds, and \<^verbatim>\<open>parse_args\<close> of Python 3's \<^verbatim>\<open>argparse\<close> on them: a
  parser is the list of its optional arguments (option strings, action, destination).
  Modelled: exact option strings, \<^verbatim>\<open>--opt=value\<close>, unique prefixes of long options, clusters
  of one-letter flags, \<^verbatim>\<open>-h\<close>, values that look like options, and unrecognized arguments
  (exit status 2 once all arguments are read). Not modelled: the separator \<^verbatim>\<open>--\<close>.
\<close>

datatype opt_action = Store | StoreTrue | AppendTo | Help

type_synonym parser = "(string list \<times> opt_action \<times> string) list"

definition new_parser :: parser where
  "new_parser = [([''-h'', ''--help''], Help, ''help'')]"

definition add_global_args :: "parser \<Rightarrow> parser" where
  "add_global_args parser =
     parser @ [([''--build-dir''], Store, ''build_dir''),
               ([''-v'', ''--verbose''], StoreTrue, ''verbose'')]"

definition add_build_args :: "parser \<Rightarrow> parser" where
  "add_build_args parser =
     add_global_args parser @ [([''--swiftc''], Store, ''swiftc_path''),
                               ([''--release''], StoreTrue, ''release'')]"

definition add_test_args :: "parser \<Rightarrow> parser" where
  "add_test_args parser =
     add_build_args parser @ [([''--parallel''], StoreTrue, ''parallel''),
                              ([''--filter''], AppendTo, ''filter'')]"

definition empty_namespace :: namespace where
  "empty_namespace =
     \<lparr>command = Missing, func = Missing, build_dir = Missing, verbose = Missing,
      swiftc_path = Missing, release = Missing, parallel = Missing, filter_attr = Missing,
      target_dir = Missing, conf = Missing, bin_dir = Missing, llbuild_build_dir = Missing,
      llbuild_source_dir = Missing, llbuild_link_framework = Missing,
      bootstrap_dir = Missing, install_prefixes = Missing, install_libspm = Missing\<rparr>"

definition set_default :: "string list \<times> opt_action \<times> string \<Rightarrow> namespace \<Rightarrow> namespace" where
  \<comment> \<open>the \<^verbatim>\<open>default=\<close> of each \<^verbatim>\<open>add_argument\<close>: \<^verbatim>\<open>None\<close> for a stored value, \<^verbatim>\<open>False\<close> for
     \<^verbatim>\<open>store_true\<close>, unless given\<close>
  "set_default spec ns =
     (let dest = snd (snd spec) in
      if dest = ''build_dir'' then ns\<lparr>build_dir := Attr ''.build''\<rparr>
      else if dest = ''verbose'' then ns\<lparr>verbose := Attr False\<rparr>
      else if dest = ''swiftc_path'' then ns\<lparr>swiftc_path := Attr None\<rparr>
      else if dest = ''release'' then ns\<lparr>release := Attr False\<rparr>
      else if dest = ''parallel'' then ns\<lparr>parallel := Attr True\<rparr>
      else if dest = ''filter'' then ns\<lparr>filter_attr := Attr []\<rparr>
      else ns)"

definition store :: "string \<Rightarrow> string \<Rightarrow> namespace \<Rightarrow> namespace" where
  "store dest v ns =
     (if dest = ''build_dir'' then ns\<lparr>build_dir := Attr v\<rparr>
      else if dest = ''swiftc_path'' then ns\<lparr>swiftc_path := Attr (Some v)\<rparr>
      else ns)"

definition store_true :: "string \<Rightarrow> namespace \<Rightarrow> namespace" where
  "store_true dest ns =
     (if dest = ''verbose'' then ns\<lparr>verbose := Attr True\<rparr>
      else if dest = ''release'' then ns\<lparr>release := Attr True\<rparr>
      else if dest = ''parallel'' then ns\<lparr>parallel := Attr True\<rparr>
      else ns)"

definition append_to :: "string \<Rightarrow> string \<Rightarrow> namespace \<Rightarrow> namespace" where
  "append_to dest v ns =
     (if dest = ''filter''
      then ns\<lparr>filter_attr := Attr ((case filter_attr ns of Missing \<Rightarrow> [] | Attr xs \<Rightarrow> xs) @ [v])\<rparr>
      else ns)"

definition option_table :: "parser \<Rightarrow> (string \<times> opt_action \<times> string) list" where
  "option_table p = concat (map (\<lambda>(strs, a, d). map (\<lambda>s. (s, a, d)) strs) p)"

definition split_eq :: "string \<Rightarrow> string \<times> string option" where
  \<comment> \<open>\<^verbatim>\<open>arg.split('=', 1)\<close> when there is an \<^verbatim>\<open>=\<close>\<close>
  "split_eq t =
     (if CHR ''='' \<in> set t
      then (takeWhile (\<lambda>c. c \<noteq> CHR ''='') t, Some (tl (dropWhile (\<lambda>c. c \<noteq> CHR ''='') t)))
      else (t, None))"

datatype lookup =
    Unknown
  | Ambiguous
  | BadCluster
  | Found opt_action string "string option"
  | Cluster "(opt_action \<times> string) list"

definition parse_optional :: "parser \<Rightarrow> string \<Rightarrow> lookup" where
  "parse_optional p t =
     (case map_of (option_table p) t of
        Some (a, d) \<Rightarrow> Found a d None
      | None \<Rightarrow>
          (case (split_eq t, map_of (option_table p) (fst (split_eq t))) of
             ((_, Some v), Some (a, d)) \<Rightarrow> Found a d (Some v)
           | _ \<Rightarrow>
              if starts_with ''--'' t
              then (case filter (\<lambda>(s, a, d). starts_with (fst (split_eq t)) s) (option_table p) of
                      [] \<Rightarrow> Unknown
                    | [(s, a, d)] \<Rightarrow> Found a d (snd (split_eq t))
                    | _ \<Rightarrow> Ambiguous)
              else (case map_of (option_table p) (take 2 t) of
                      None \<Rightarrow> Unknown
                    | Some (a, d) \<Rightarrow>
                        if a = Store \<or> a = AppendTo then Found a d (Some (drop 2 t))
                        else (let flags = map (\<lambda>c. map_of (option_table p) [CHR ''-'', c]) (tl t)
                              in if \<forall>f \<in> set flags. (case f of
                                                      Some (b, _) \<Rightarrow> b = StoreTrue \<or> b = Help
                                                    | None \<Rightarrow> False)
                                 then Cluster (map the flags) else BadCluster))))"

definition is_digit :: "char \<Rightarrow> bool" where
  "is_digit c = (let n = (of_char c :: nat) in 48 \<le> n \<and> n \<le> 57)"

definition negative_number :: "string \<Rightarrow> bool" where
  \<comment> \<open>\<^verbatim>\<open>^-\d+$|^-\d*\.\d+$\<close>\<close>
  "negative_number t =
     (case t of
        [] \<Rightarrow> False
      | c # r \<Rightarrow>
          c = CHR ''-'' \<and>
          ((r \<noteq> [] \<and> (\<forall>x \<in> set r. is_digit x)) \<or>
           (let a = takeWhile is_digit r; b = dropWhile is_digit r
            in b \<noteq> [] \<and> hd b = CHR ''.'' \<and> tl b \<noteq> [] \<and> (\<forall>x \<in> set (tl b). is_digit x))))"

definition is_positional :: "parser \<Rightarrow> string \<Rightarrow> bool" where
  \<comment> \<open>whether \<^verbatim>\<open>argparse\<close> reads the argument as a value rather than as an option\<close>
  "is_positional p t =
     (if \<not> starts_with ''-'' t then True
      else if map_of (option_table p) t \<noteq> None then False
      else if length t = 1 then True
      else if parse_optional p t \<noteq> Unknown then False
      else negative_number t \<or> CHR '' '' \<in> set t)"

fun run_flags :: "(opt_action \<times> string) list \<Rightarrow> namespace \<Rightarrow> exc + namespace" where
  "run_flags [] ns = Inr ns"
| "run_flags ((a, d) # fs) ns =
     (if a = Help then Inl (SystemExit 0) else run_flags fs (store_true d ns))"

fun consume :: "parser \<Rightarrow> string list \<Rightarrow> bool \<Rightarrow> namespace \<Rightarrow> exc + namespace \<times> bool" where
  "consume p [] extras ns = Inr (ns, extras)"
| "consume p (t # ts) extras ns =
     (if is_positional p t then consume p ts True ns
      else (case parse_optional p t of
              Unknown \<Rightarrow> consume p ts True ns
            | Ambiguous \<Rightarrow> Inl (SystemExit 2)
            | BadCluster \<Rightarrow> Inl (SystemExit 2)
            | Cluster fs \<Rightarrow>
                (case run_flags fs ns of Inl e \<Rightarrow> Inl e | Inr ns' \<Rightarrow> consume p ts extras ns')
            | Found a d explicit \<Rightarrow>
                (case a of
                   Help \<Rightarrow> if explicit = None then Inl (SystemExit 0) else Inl (SystemExit 2)
                 | StoreTrue \<Rightarrow>
                     if explicit = None then consume p ts extras (store_true d ns)
                     else Inl (SystemExit 2)
                 | _ \<Rightarrow>
                     (case explicit of
                        Some v \<Rightarrow>
                          consume p ts extras ((if a = Store then store else append_to) d v ns)
                      | None \<Rightarrow>
                          (case ts of
                             [] \<Rightarrow> Inl (SystemExit 2)
                           | v # ts' \<Rightarrow>
                               if is_positional p v
                               then consume p ts' extras
                                      ((if a = Store then store else append_to) d v ns)
                               else Inl (SystemExit 2))))))"

definition subparser :: "string \<Rightarrow> (parser \<times> action) option" where
  \<comment> \<open>the three subparsers of \<^verbatim>\<open>main\<close>; \<^verbatim>\<open>test\<close> is given \<^verbatim>\<open>add_build_args\<close>\<close>
  "subparser name =
     (if name = ''clean'' then Some (add_global_args new_parser, Clean)
      else if name = ''build'' then Some (add_build_args new_parser, Build)
      else if name = ''test'' then Some (add_build_args new_parser, Test)
      else None)"

fun parse_top :: "string list \<Rightarrow> bool \<Rightarrow> exc + namespace" where
  "parse_top [] extras =
     (if extras then Inl (SystemExit 2) else Inr (empty_namespace\<lparr>command := Attr None\<rparr>))"
| "parse_top (t # ts) extras =
     (if is_positional new_parser t
      then (case subparser t of
              None \<Rightarrow> Inl (SystemExit 2)
            | Some (p, f) \<Rightarrow>
                (case consume p ts False
                        (foldr set_default p
                           (empty_namespace\<lparr>command := Attr (Some t), func := Attr f\<rparr>)) of
                   Inl e \<Rightarrow> Inl e
                 | Inr (ns, extras') \<Rightarrow>
                     if extras \<or> extras' then Inl (SystemExit 2) else Inr ns))
      else (case parse_optional new_parser t of
              Unknown \<Rightarrow> parse_top ts True
            | Found a d explicit \<Rightarrow>
                if explicit = None then Inl (SystemExit 0) else Inl (SystemExit 2)
            | Cluster fs \<Rightarrow> Inl (SystemExit 0)
            | _ \<Rightarrow> Inl (SystemExit 2)))"

definition parse_args :: "string list \<Rightarrow> exc + namespace" where
  "parse_args argv = parse_top argv False"

section \<open>Build-related helper functions\<close>

definition and_then :: "exc + 'a \<Rightarrow> ('a \<Rightarrow> exc + 'b) \<Rightarrow> exc + 'b" where
  "and_then r f = (case r of Inl e \<Rightarrow> Inl e | Inr x \<Rightarrow> f x)"

definition clean_global_args :: "'w host \<Rightarrow> namespace \<Rightarrow> ('w, namespace) py" where
  "clean_global_args h args =
     bind_py (lift (getattr ''build_dir'' (build_dir args))) (\<lambda>bd.
     bind_py (abspath h bd) (\<lambda>p.
     ret (args\<lparr>build_dir := Attr p\<rparr>)))"

definition get_swiftc_path :: "'w host \<Rightarrow> namespace \<Rightarrow> ('w, string) py" where
  "get_swiftc_path h args =
     try_except
       (\<lambda>s. case environ s ''SWIFT_EXEC'' of
              Some e \<Rightarrow>
                if e \<noteq> []
                then (let swiftc_path = os_realpath h (world s) e
                      in (Inr (if basename swiftc_path = ''swift''
                               then swiftc_path @ ''c'' else swiftc_path), s))
                else if platform_system h = ''Darwin''
                then bind_py (call_output h args [''xcrun'', ''--find'', ''swiftc''] None)
                       (\<lambda>out. ret (strip out)) s
                else bind_py (call_output h args [''which'', ''swiftc''] None)
                       (\<lambda>out. ret (strip out)) s
            | None \<Rightarrow>
                if platform_system h = ''Darwin''
                then bind_py (call_output h args [''xcrun'', ''--find'', ''swiftc''] None)
                       (\<lambda>out. ret (strip out)) s
                else bind_py (call_output h args [''which'', ''swiftc''] None)
                       (\<lambda>out. ret (strip out)) s)
       (\<lambda>_. error h ''unable to find 'swiftc' tool for bootstrap build'')"

definition get_llbuild_cmake_arg :: "namespace \<Rightarrow> exc + string" where
  "get_llbuild_cmake_arg args =
     and_then (getattr ''llbuild_link_framework'' (llbuild_link_framework args)) (\<lambda>fw.
     if fw
     then and_then (getattr ''llbuild_build_dir'' (llbuild_build_dir args)) (\<lambda>d.
          Inr (''-DLLBUILD_FRAMEWORK='' @ py_str d))
     else and_then (getattr ''llbuild_build_dir'' (llbuild_build_dir args)) (\<lambda>d.
          and_then (as_str d) (\<lambda>d.
          Inr (''-DLLBuild_DIR='' @ path_join d ''cmake/modules''))))"

definition get_llbuild_source_path :: "'w host \<Rightarrow> globals \<Rightarrow> ('w, string) py" where
  "get_llbuild_source_path h g s =
     (let llbuild_path = path_join (path_join (g_project_root g) ''..'') ''llbuild''
      in if os_exists h (world s) llbuild_path then (Inr llbuild_path, s)
         else bind_py
                (note_fn h ''clone llbuild next to swiftpm directory; see development docs: https://github.com/apple/swift-package-manager/blob/master/Documentation/Development.md#using-trunk-snapshot'')
                (\<lambda>_. error h (''unable to find llbuild source directory at '' @ llbuild_path)) s)"

definition get_build_target :: "'w host \<Rightarrow> namespace \<Rightarrow> ('w, string) py" where
  "get_build_target h args =
     (if platform_system h = ''Darwin'' then ret ''x86_64-apple-macosx''
      else bind_py (call_output h args [''clang'', ''--print-target-triple''] None)
             (\<lambda>out. ret (strip out)))"

definition clean_build_args :: "'w host \<Rightarrow> namespace \<Rightarrow> ('w, namespace) py" where
  "clean_build_args h args0 =
     bind_py (clean_global_args h args0) (\<lambda>args1.
     bind_py (lift (getattr ''swiftc_path'' (swiftc_path args1))) (\<lambda>sp.
     bind_py (if truthy sp
              then bind_py (lift (as_str sp)) (\<lambda>p.
                   bind_py (abspath h p) (\<lambda>p'.
                   ret (args1\<lparr>swiftc_path := Attr (Some p')\<rparr>)))
              else ret args1) (\<lambda>args2.
     bind_py (lift (getattr ''swiftc_path'' (swiftc_path args2))) (\<lambda>sp.
     bind_py (if truthy sp then ret sp
              else bind_py (get_swiftc_path h args2) (\<lambda>p. ret (Some p))) (\<lambda>sp'.
     bind_py (lift (getattr ''build_dir'' (build_dir args2))) (\<lambda>bd.
     bind_py (get_build_target h (args2\<lparr>swiftc_path := Attr sp'\<rparr>)) (\<lambda>triple.
     bind_py (lift (getattr ''release'' (release args2))) (\<lambda>rel.
     let target = path_join bd triple;
         mode = (if rel then ''release'' else ''debug'')
     in ret (args2\<lparr>swiftc_path := Attr sp', target_dir := Attr target,
                   conf := Attr mode, bin_dir := Attr (path_join target mode)\<rparr>)))))))))"

definition clean_test_args :: "'w host \<Rightarrow> namespace \<Rightarrow> ('w, namespace) py" where
  "clean_test_args h args = clean_build_args h args"

definition get_swiftpm_env_cmd :: "namespace \<Rightarrow> exc + string list" where
  "get_swiftpm_env_cmd args =
     and_then (getattr ''swiftc_path'' (swiftc_path args)) (\<lambda>sp.
     and_then (as_str sp) (\<lambda>sp.
     and_then (getattr ''build_dir'' (build_dir args)) (\<lambda>bd.
     and_then (getattr ''bootstrap_dir'' (bootstrap_dir args)) (\<lambda>bs.
     and_then (getattr ''llbuild_link_framework'' (llbuild_link_framework args)) (\<lambda>fw.
     and_then (if fw
               then and_then (getattr ''llbuild_build_dir'' (llbuild_build_dir args)) (\<lambda>d.
                    Inr [''DYLD_FRAMEWORK_PATH='' @ py_str d, ''SWIFTPM_BOOTSTRAP=1''])
               else Inr [''SWIFTCI_USE_LOCAL_DEPS=1'']) (\<lambda>linkage.
     and_then (getattr ''llbuild_build_dir'' (llbuild_build_dir args)) (\<lambda>d.
     and_then (as_str d) (\<lambda>d.
     let libs_joined = join_str '':'' [path_join bs ''lib'', path_join d ''lib'']
     in Inr ([''env'',
              ''SWIFT_EXEC='' @ sp,
              ''SWIFTPM_BUILD_DIR='' @ bd,
              ''SWIFTPM_PD_LIBS='' @ path_join bs ''pm'']
             @ linkage
             @ [''DYLD_LIBRARY_PATH='' @ libs_joined,
                ''LD_LIBRARY_PATH='' @ libs_joined])))))))))"

definition get_swiftpm_flags :: "namespace \<Rightarrow> exc + string list" where
  "get_swiftpm_flags args =
     and_then (getattr ''release'' (release args)) (\<lambda>rel.
     Inr ([''--disable-index-store'']
          @ (if rel then [''-Xswiftc'', ''-enable-testing'', ''--configuration'', ''release'']
             else [])))"

section \<open>Build functions\<close>

definition make_symlinks :: "'w host \<Rightarrow> namespace \<Rightarrow> ('w, unit) py" where
  "make_symlinks h args =
     bind_py (lift (getattr ''target_dir'' (target_dir args))) (\<lambda>td.
     let runtimes_dir = path_join td ''lib/swift'' in
     bind_py (mkdir_p h runtimes_dir) (\<lambda>_.
     bind_py (lift (getattr ''bootstrap_dir'' (bootstrap_dir args))) (\<lambda>bs.
     symlink_force h (path_join bs ''pm'') runtimes_dir)))"

definition cmake_configure ::
  "'w host \<Rightarrow> globals \<Rightarrow> namespace \<Rightarrow> string list \<Rightarrow> string \<Rightarrow> string \<Rightarrow> ('w, unit) py" where
  \<comment> \<open>the body of \<^verbatim>\<open>if not os.path.isfile(cache_path):\<close> in \<^verbatim>\<open>build_with_cmake\<close>\<close>
  "cmake_configure h g args cmake_args source_path build_path =
     bind_py (if platform_system h = ''Darwin''
              then (case g_default_sysroot g of
                      None \<Rightarrow> throw (NameError ''g_default_sysroot'')
                    | Some sysroot \<Rightarrow> ret (''-sdk '' @ sysroot))
              else ret []) (\<lambda>swift_flags.
     bind_py (lift (getattr ''swiftc_path'' (swiftc_path args))) (\<lambda>sp.
     let cmd = [''cmake'', ''-G'', ''Ninja'',
                ''-DCMAKE_BUILD_TYPE:=Debug'',
                ''-DCMAKE_Swift_FLAGS='' @ swift_flags,
                ''-DCMAKE_Swift_COMPILER:='' @ py_str sp] @ cmake_args @ [source_path] in
     bind_py (lift (getattr ''verbose'' (verbose args))) (\<lambda>v.
     bind_py (if v then print (join_str '' '' cmd) else ret ()) (\<lambda>_.
     bind_py (mkdir_p h build_path) (\<lambda>_.
     call h args cmd (Some build_path))))))"

definition build_with_cmake ::
  "'w host \<Rightarrow> globals \<Rightarrow> namespace \<Rightarrow> string list \<Rightarrow> string \<Rightarrow> string \<Rightarrow> ('w, unit) py" where
  "build_with_cmake h g args cmake_args source_path build_path =
     bind_py (\<lambda>s. if \<not> os_isfile h (world s) (path_join build_path ''CMakeCache.txt'')
                   then cmake_configure h g args cmake_args source_path build_path s
                   else (Inr (), s)) (\<lambda>_.
     bind_py (lift (getattr ''verbose'' (verbose args))) (\<lambda>v.
     call h args ([''ninja''] @ (if v then [''-v''] else [])) (Some build_path)))"

definition build_llbuild :: "'w host \<Rightarrow> globals \<Rightarrow> namespace \<Rightarrow> ('w, namespace) py" where
  "build_llbuild h g args0 =
     bind_py (note_fn h ''Building llbuild'') (\<lambda>_.
     bind_py (lift (getattr ''target_dir'' (target_dir args0))) (\<lambda>td.
     let llbuild_dir = path_join td ''llbuild'';
         args = args0\<lparr>llbuild_build_dir := Attr (Some llbuild_dir)\<rparr>;
         api_dir = path_join llbuild_dir ''.cmake/api/v1/query'' in
     bind_py (mkdir_p h api_dir) (\<lambda>_.
     bind_py (call h args [''touch'', ''codemodel-v2''] (Some api_dir)) (\<lambda>_.
     bind_py (lift (getattr ''llbuild_source_dir'' (llbuild_source_dir args))) (\<lambda>sd.
     bind_py (if truthy sd then lift (as_str sd) else get_llbuild_source_path h g)
       (\<lambda>source_dir.
     bind_py (case g_default_sysroot g of
                None \<Rightarrow> throw (NameError ''g_default_sysroot'')
              | Some sysroot \<Rightarrow> ret (''-DSQLite3_INCLUDE_DIR='' @ sysroot @ ''/usr/include''))
       (\<lambda>sqlite_arg.
     bind_py (build_with_cmake h g args
                [''-DCMAKE_C_COMPILER:=clang'',
                 ''-DCMAKE_CXX_COMPILER:=clang++'',
                 ''-DLLBUILD_SUPPORT_BINDINGS:=Swift'',
                 sqlite_arg] source_dir llbuild_dir) (\<lambda>_.
     ret args))))))))"

definition build_swiftpm_with_cmake :: "'w host \<Rightarrow> globals \<Rightarrow> namespace \<Rightarrow> ('w, unit) py" where
  "build_swiftpm_with_cmake h g args =
     bind_py (note_fn h ''Building SwiftPM (with CMake)'') (\<lambda>_.
     bind_py (lift (get_llbuild_cmake_arg args)) (\<lambda>llbuild_arg.
     bind_py (lift (getattr ''bin_dir'' (bin_dir args))) (\<lambda>bd.
     bind_py (lift (getattr ''install_prefixes'' (install_prefixes args))) (\<lambda>prefixes.
     bind_py (case prefixes of [] \<Rightarrow> throw IndexError | p # _ \<Rightarrow> ret p) (\<lambda>prefix.
     bind_py (lift (getattr ''install_libspm'' (install_libspm args))) (\<lambda>libspm.
     bind_py (lift (getattr ''bootstrap_dir'' (bootstrap_dir args))) (\<lambda>bs.
     bind_py (build_with_cmake h g args
                [llbuild_arg,
                 ''-DSWIFTPM_BUILD_DIR='' @ bd,
                 ''-DUSE_VENDORED_TSC=ON'',
                 ''-DCMAKE_INSTALL_PREFIX='' @ prefix,
                 ''-DINSTALL_LIBSWIFTPM='' @ (if libspm then ''ON'' else ''OFF'')]
                (g_project_root g) bs) (\<lambda>_.
     make_symlinks h args))))))))"

definition call_swiftpm :: "'w host \<Rightarrow> globals \<Rightarrow> namespace \<Rightarrow> string list \<Rightarrow> ('w, unit) py" where
  "call_swiftpm h g args cmd =
     bind_py (lift (get_swiftpm_env_cmd args)) (\<lambda>env_cmd.
     bind_py (lift (get_swiftpm_flags args)) (\<lambda>flags.
     call h args (env_cmd @ cmd @ flags) (Some (g_project_root g))))"

definition build_swiftpm_with_swiftpm :: "'w host \<Rightarrow> globals \<Rightarrow> namespace \<Rightarrow> ('w, unit) py" where
  "build_swiftpm_with_swiftpm h g args =
     bind_py (note_fn h ''Building SwiftPM (with swift-build)'') (\<lambda>_.
     bind_py (lift (getattr ''bootstrap_dir'' (bootstrap_dir args))) (\<lambda>bs.
     call_swiftpm h g args [path_join bs ''bin/swift-build'', ''--build-tests'']))"

section \<open>Actions\<close>

definition clean :: "'w host \<Rightarrow> namespace \<Rightarrow> ('w, unit) py" where
  "clean h args0 =
     bind_py (note_fn h ''Cleaning'') (\<lambda>_.
     bind_py (clean_global_args h args0) (\<lambda>args.
     bind_py (lift (getattr ''build_dir'' (build_dir args))) (\<lambda>bd.
     call h args [''rm'', ''-rf'', bd] None)))"

definition build :: "'w host \<Rightarrow> globals \<Rightarrow> namespace \<Rightarrow> ('w, namespace) py" where
  "build h g args0 =
     bind_py (clean_build_args h args0) (\<lambda>args1.
     bind_py (lift (getattr ''llbuild_build_dir'' (llbuild_build_dir args1))) (\<lambda>d.
     bind_py (if \<not> truthy d then build_llbuild h g args1 else ret args1) (\<lambda>args.
     bind_py (build_swiftpm_with_cmake h g args) (\<lambda>_.
     bind_py (build_swiftpm_with_swiftpm h g args) (\<lambda>_.
     ret args)))))"

definition test :: "'w host \<Rightarrow> globals \<Rightarrow> namespace \<Rightarrow> ('w, unit) py" where
  "test h g args0 =
     bind_py (build h g args0) (\<lambda>args1.
     bind_py (note_fn h ''Testing'') (\<lambda>_.
     bind_py (clean_test_args h args1) (\<lambda>args.
     bind_py (lift (getattr ''bin_dir'' (bin_dir args))) (\<lambda>bd.
     bind_py (lift (getattr ''parallel'' (parallel args))) (\<lambda>par.
     bind_py (lift (getattr ''filter'' (filter_attr args))) (\<lambda>filters.
     call_swiftpm h g args
       ([path_join bd ''swift-test'']
        @ (if par then [''--parallel''] else [])
        @ concat (map (\<lambda>arg. [''--filter'', arg]) filters))))))))"

definition install :: "'w host \<Rightarrow> globals \<Rightarrow> namespace \<Rightarrow> ('w, unit) py" where
  "install h g args0 =
     bind_py (build h g args0) (\<lambda>args.
     bind_py (note_fn h ''Installing'') (\<lambda>_.
     bind_py (lift (getattr ''bootstrap_dir'' (bootstrap_dir args))) (\<lambda>bs.
     call h args [''ninja'', ''install''] (Some bs))))"

section \<open>main\<close>

definition main :: "'w host \<Rightarrow> globals \<Rightarrow> string list \<Rightarrow> ('w, unit) py" where
  \<comment> \<open>\<^verbatim>\<open>args.func or build\<close> first reads \<^verbatim>\<open>args.func\<close>; a function is never false\<close>
  "main h g argv =
     bind_py (lift (parse_args argv)) (\<lambda>args.
     bind_py (lift (getattr ''func'' (func args))) (\<lambda>f.
     case f of
       Clean \<Rightarrow> clean h args
     | Build \<Rightarrow> bind_py (build h g args) (\<lambda>_. ret ())
     | Test \<Rightarrow> test h g args))"

definition module_init :: "'w host \<Rightarrow> ('w, globals) py" where
  \<comment> \<open>the module-level statements: the globals \<^verbatim>\<open>g_project_root\<close>, \<^verbatim>\<open>g_source_root\<close> and,
     on Darwin only, \<^verbatim>\<open>g_default_sysroot\<close>\<close>
  "module_init h s =
     (let root = dirname (dirname (abspath_in (os_getcwd h (world s)) (script_path h)));
          g = \<lparr>g_project_root = root, g_source_root = path_join root ''Sources'',
               g_default_sysroot = None\<rparr>
      in if platform_system h = ''Darwin''
         then bind_py (check_output h [''xcrun'', ''--sdk'', ''macosx'', ''--show-sdk-path''] None)
                (\<lambda>out. ret (g\<lparr>g_default_sysroot := Some (strip out)\<rparr>)) s
         else (Inr g, s))"

definition script :: "'w host \<Rightarrow> string list \<Rightarrow> ('w, unit) py" where
  \<comment> \<open>running the file: the module-level statements, then \<^verbatim>\<open>main()\<close> on \<^verbatim>\<open>sys.argv[1:]\<close>\<close>
  "script h argv = bind_py (module_init h) (\<lambda>g. main h g argv)"

section \<open>Concrete hosts and namespaces\<close>

text \<open>
  A host whose world is the list of the regular files that exist. Children whose program
  name is in \<open>bad\<close> exit with status 1; the others exit with status 0 and change nothing;
  \<^verbatim>\<open>clang --print-target-triple\<close> prints a triple.
\<close>

definition demo_host :: "string \<Rightarrow> string list \<Rightarrow> string list host" where
  "demo_host sys bad =
     \<lparr>platform_system = sys,
      argv0 = ''Utilities/build-script-helper.py'',
      script_path = ''Utilities/build-script-helper.py'',
      os_getcwd = (\<lambda>w. ''/work/tsc''),
      os_realpath = (\<lambda>w p. p),
      os_isfile = (\<lambda>w p. p \<in> set w),
      os_isdir = (\<lambda>w p. False),
      os_exists = (\<lambda>w p. p \<in> set w),
      os_makedirs = (\<lambda>w p. (None, w)),
      os_symlink = (\<lambda>w t l. (None, w)),
      os_remove = (\<lambda>w p. (None, w)),
      spawn = (\<lambda>w cmd cwd.
         if (case cmd of [] \<Rightarrow> False | c # _ \<Rightarrow> c \<in> set bad) then (Exited 1 [], w)
         else if cmd = [''clang'', ''--print-target-triple'']
         then (Exited 0 (''x86_64-unknown-linux-gnu'' @ [CHR 0x0A]), w)
         else (Exited 0 [], w))\<rparr>"

definition demo_state :: "string list \<Rightarrow> (string \<rightharpoonup> string) \<Rightarrow> string list state" where
  "demo_state files env = \<lparr>world = files, environ = env, stdout = [], executed = []\<rparr>"

definition demo_globals :: globals where
  "demo_globals =
     \<lparr>g_project_root = ''/work/tsc'', g_source_root = ''/work/tsc/Sources'',
      g_default_sysroot = Some ''/sdk''\<rparr>"

text \<open>
  A namespace with every attribute the functions read, as a parser that declared them all
  would fill it.
\<close>

definition full_args :: namespace where
  "full_args =
     \<lparr>command = Attr (Some ''build''), func = Attr Build, build_dir = Attr ''.build'',
      verbose = Attr False, swiftc_path = Attr (Some ''/usr/bin/swiftc''),
      release = Attr False, parallel = Attr True, filter_attr = Attr [],
      target_dir = Missing, conf = Missing, bin_dir = Missing,
      llbuild_build_dir = Attr None, llbuild_source_dir = Attr (Some ''/work/llbuild''),
      llbuild_link_framework = Attr False, bootstrap_dir = Attr ''/work/tsc/.build/bootstrap'',
      install_prefixes = Attr [''/usr/local''], install_libspm = Attr False\<rparr>"

section \<open>Observing a run\<close>

definition new_procs :: "'w state \<Rightarrow> 'w state \<Rightarrow> proc_record list" where
  \<comment> \<open>the child processes run between two states\<close>
  "new_procs s s' = drop (length (executed s)) (executed s')"

section \<open>Basic facts about the embedding\<close>

lemma bind_py_lift_Inr: "bind_py (lift (Inr x)) f = f x"
  by (rule ext) (simp add: bind_py_def lift_def)

lemma bind_py_lift_Inl: "bind_py (lift (Inl e)) f = throw e"
  by (rule ext) (simp add: bind_py_def lift_def throw_def)

lemma bind_py_ret: "bind_py (ret x) f = f x"
  by (rule ext) (simp add: bind_py_def ret_def)

lemma bind_py_throw: "bind_py (throw e) f = throw e"
  by (rule ext) (simp add: bind_py_def throw_def)

lemma bind_py_print: "bind_py (print l) f s = f () (s\<lparr>stdout := stdout s @ [l]\<rparr>)"
  by (simp add: bind_py_def print_def)

lemmas py_simps = bind_py_lift_Inr bind_py_lift_Inl bind_py_ret bind_py_throw bind_py_print

lemma getattr_simps:
  "getattr n (Attr v) = Inr v"
  "getattr n Missing = Inl (AttributeError n)"
  by (simp_all add: getattr_def)

lemma call_fails:
  assumes "verbose args = Attr v" and "spawn h (world s) cmd cwd = (res, w')"
      and "failed (Proc cmd cwd res True)"
  shows "call h args cmd cwd s =
           (Inl (UnboundLocalError ''result''),
            s\<lparr>world := w', executed := executed s @ [Proc cmd cwd res True],
              stdout := stdout s @ [join_str '' '' cmd]\<rparr>)"
  using assms
  by (cases res; cases v)
     (simp_all add: call_def call_except_def check_call_def py_simps getattr_simps failed_def
        throw_def ret_def Let_def)

lemma call_succeeds:
  assumes "verbose args = Attr v" and "spawn h (world s) cmd cwd = (Exited 0 out, w')"
  shows "call h args cmd cwd s =
           (Inr (),
            s\<lparr>world := w', executed := executed s @ [Proc cmd cwd (Exited 0 out) True],
              stdout := stdout s @ (if v then [join_str '' '' cmd] else [])\<rparr>)"
  using assms
  by (cases v)
     (simp_all add: call_def call_except_def check_call_def py_simps getattr_simps
        throw_def ret_def Let_def)

section \<open>The failure path of \<^verbatim>\<open>call\<close>\<close>

text \<open>
  Claim C10. In \<^verbatim>\<open>call\<close>, when the child fails (it exits with a nonzero status, or cannot
  be spawned), \<^verbatim>\<open>subprocess.check_call\<close> raises before \<^verbatim>\<open>result\<close> is assigned, so building
  the message \<^verbatim>\<open>"command failed with exit status %d" % (result,)\<close> raises
  \<^verbatim>\<open>UnboundLocalError\<close> (a \<^verbatim>\<open>NameError\<close>): the process ends with a nonzero status, the only
  line printed is the command line, and \<^verbatim>\<open>error\<close>, with its \<^verbatim>\<open>SystemExit(1)\<close>, is not
  reached.
\<close>

theorem call_failure_unbound_result:
  assumes "verbose args = Attr v"
      and "spawn h (world s) cmd cwd = (res, w')"
      and "failed (Proc cmd cwd res True)"
  shows "fst (call h args cmd cwd s) = Inl (UnboundLocalError ''result'')
       \<and> exit_status (fst (call h args cmd cwd s)) = 1
       \<and> stdout (snd (call h args cmd cwd s)) = stdout s @ [join_str '' '' cmd]
       \<and> (\<forall>n. fst (call h args cmd cwd s) \<noteq> Inl (SystemExit n))"
  by (simp add: call_fails [OF assms] exit_status_def exit_code_def)

theorem call_failure_unbound_result_witness:
  "verbose full_args = Attr False
   \<and> spawn (demo_host ''Linux'' [''rm'']) (world (demo_state [] Map.empty))
        [''rm'', ''-rf'', ''/work/tsc/.build''] None = (Exited 1 [], [])
   \<and> failed (Proc [''rm'', ''-rf'', ''/work/tsc/.build''] None (Exited 1 []) True)
   \<and> fst (call (demo_host ''Linux'' [''rm'']) full_args [''rm'', ''-rf'', ''/work/tsc/.build'']
             None (demo_state [] Map.empty)) = Inl (UnboundLocalError ''result'')
   \<and> exit_status (fst (call (demo_host ''Linux'' [''rm'']) full_args
             [''rm'', ''-rf'', ''/work/tsc/.build''] None (demo_state [] Map.empty))) = 1
   \<and> stdout (snd (call (demo_host ''Linux'' [''rm'']) full_args
             [''rm'', ''-rf'', ''/work/tsc/.build''] None (demo_state [] Map.empty)))
       = [''rm -rf /work/tsc/.build'']"
proof -
  have v: "verbose full_args = Attr False"
    by (simp add: full_args_def)
  have sp: "spawn (demo_host ''Linux'' [''rm'']) (world (demo_state [] Map.empty))
              [''rm'', ''-rf'', ''/work/tsc/.build''] None = (Exited 1 [], [])"
    by (simp add: demo_host_def demo_state_def)
  have f: "failed (Proc [''rm'', ''-rf'', ''/work/tsc/.build''] None (Exited 1 []) True)"
    by (simp add: failed_def)
  show ?thesis
    using call_failure_unbound_result [OF v sp f] v sp f
    by (simp add: demo_state_def exit_status_def exit_code_def)
qed

section \<open>Successful runs, step by step\<close>

lemma bind_py_InrE:
  assumes "bind_py m f s = (Inr y, s')"
  obtains x s1 where "m s = (Inr x, s1)" and "f x s1 = (Inr y, s')"
  using assms by (auto simp: bind_py_def split: prod.splits sum.splits)

lemma lift_InrE:
  assumes "lift r s = (Inr y, s')"
  obtains "r = Inr y" and "s' = s"
  using assms by (auto simp: lift_def)

lemma ret_InrE:
  assumes "ret x s = (Inr y, s')"
  obtains "y = x" and "s' = s"
  using assms by (auto simp: ret_def)

lemma getattr_InrE:
  assumes "getattr n a = Inr v"
  obtains "a = Attr v"
  using assms by (cases a) (auto simp: getattr_def)

lemma clean_global_args_Inr:
  assumes "clean_global_args h args s = (Inr args', s')"
  obtains bd where "build_dir args = Attr bd"
    and "args' = args\<lparr>build_dir := Attr (abspath_in (os_getcwd h (world s)) bd)\<rparr>"
    and "s' = s"
  using assms unfolding clean_global_args_def abspath_def
  by (auto elim!: bind_py_InrE lift_InrE ret_InrE getattr_InrE)

lemma get_build_target_Inr:
  assumes "get_build_target h args s = (Inr triple, s')"
  shows "if platform_system h = ''Darwin'' then triple = ''x86_64-apple-macosx''
         else \<exists>out. Proc [''clang'', ''--print-target-triple''] None (Exited 0 out) False
                      \<in> set (executed s') \<and> triple = strip out"
  using assms unfolding get_build_target_def call_output_def check_output_def
  by (fastforce elim!: bind_py_InrE lift_InrE ret_InrE getattr_InrE
        simp: print_def Let_def split: if_splits prod.splits proc_result.splits)

lemma abspath_in_absolute:
  assumes "starts_with ''/'' cwd"
  shows "starts_with ''/'' (abspath_in cwd p)"
proof -
  have j: "starts_with ''/'' (if starts_with ''/'' p then p else path_join cwd p)"
    using assms by (cases cwd) (auto simp: path_join_def starts_with_def)
  have n: "starts_with ''/'' (normpath q)" if "starts_with ''/'' q" for q
    using that by (cases q) (auto simp: normpath_def starts_with_def Let_def)
  show ?thesis unfolding abspath_in_def by (rule n [OF j])
qed

lemma swiftc_abs_step:
  assumes "(if truthy sp
            then bind_py (lift (as_str sp)) (\<lambda>p. bind_py (abspath h p)
                   (\<lambda>p'. ret (a\<lparr>swiftc_path := Attr (Some p')\<rparr>)))
            else ret a) s = (Inr b, t)"
  shows "t = s \<and> (\<exists>x. b = a\<lparr>swiftc_path := x\<rparr>)"
proof (cases "truthy sp")
  case True
  then obtain p where "sp = Some p" by (cases sp) (auto simp: truthy_def)
  with assms True show ?thesis
    by (auto simp: bind_py_def lift_def as_str_def abspath_def ret_def)
next
  case False
  with assms have "t = s" "b = a" by (auto simp: ret_def)
  moreover have "a = a\<lparr>swiftc_path := swiftc_path a\<rparr>" by simp
  ultimately show ?thesis by blast
qed

lemma clean_build_args_Inr:
  assumes "clean_build_args h args s = (Inr args', s')"
  obtains bd rel triple sp a sa where
    "build_dir args = Attr bd" and "release args = Attr rel"
    and "get_build_target h a sa = (Inr triple, s')"
    and "args' = args\<lparr>build_dir := Attr (abspath_in (os_getcwd h (world s)) bd),
                       swiftc_path := Attr sp,
                       target_dir := Attr (path_join (abspath_in (os_getcwd h (world s)) bd) triple),
                       conf := Attr (if rel then ''release'' else ''debug''),
                       bin_dir := Attr (path_join
                                         (path_join (abspath_in (os_getcwd h (world s)) bd) triple)
                                         (if rel then ''release'' else ''debug''))\<rparr>"
  using assms unfolding clean_build_args_def
  apply (elim bind_py_InrE lift_InrE clean_global_args_Inr getattr_InrE)
  apply (simp only: Let_def)
  apply (elim ret_InrE)
  apply (drule swiftc_abs_step)
  apply clarsimp
  done

section \<open>The layout of the build directories\<close>

text \<open>
  Claim C5. Whenever \<^verbatim>\<open>clean_build_args\<close> returns, \<^verbatim>\<open>args.bin_dir\<close> is
  \<^verbatim>\<open>os.path.join(os.path.join(build_dir, triple), conf)\<close>, where \<^verbatim>\<open>build_dir\<close> is the absolute
  form of the given build directory (an absolute path whenever the working directory is
  one), \<^verbatim>\<open>triple\<close> is the target triple (the fixed one on Darwin, the stripped output of
  \<^verbatim>\<open>clang --print-target-triple\<close> elsewhere) and \<^verbatim>\<open>conf\<close> is \<^verbatim>\<open>release\<close> when the release flag
  is set and \<^verbatim>\<open>debug\<close> otherwise.
\<close>

theorem bin_dir_layout:
  assumes "fst (clean_build_args h args s) = Inr args'"
  shows "\<exists>bd rel triple.
           build_dir args = Attr bd \<and> release args = Attr rel
         \<and> build_dir args' = Attr (abspath_in (os_getcwd h (world s)) bd)
         \<and> target_dir args' = Attr (path_join (abspath_in (os_getcwd h (world s)) bd) triple)
         \<and> conf args' = Attr (if rel then ''release'' else ''debug'')
         \<and> bin_dir args' =
             Attr (path_join (path_join (abspath_in (os_getcwd h (world s)) bd) triple)
                     (if rel then ''release'' else ''debug''))
         \<and> (if platform_system h = ''Darwin'' then triple = ''x86_64-apple-macosx''
            else \<exists>out. Proc [''clang'', ''--print-target-triple''] None (Exited 0 out) False
                         \<in> set (executed (snd (clean_build_args h args s)))
                       \<and> triple = strip out)
         \<and> (starts_with ''/'' (os_getcwd h (world s))
              \<longrightarrow> starts_with ''/'' (abspath_in (os_getcwd h (world s)) bd))"
proof -
  obtain s' where run: "clean_build_args h args s = (Inr args', s')"
    using assms by (cases "clean_build_args h args s") simp
  from run obtain bd rel triple sp a sa where
    1: "build_dir args = Attr bd" and 2: "release args = Attr rel"
    and 3: "get_build_target h a sa = (Inr triple, s')"
    and 4: "args' = args\<lparr>build_dir := Attr (abspath_in (os_getcwd h (world s)) bd),
                       swiftc_path := Attr sp,
                       target_dir := Attr (path_join (abspath_in (os_getcwd h (world s)) bd) triple),
                       conf := Attr (if rel then ''release'' else ''debug''),
                       bin_dir := Attr (path_join
                                         (path_join (abspath_in (os_getcwd h (world s)) bd) triple)
                                         (if rel then ''release'' else ''debug''))\<rparr>"
    by (rule clean_build_args_Inr)
  have 5: "if platform_system h = ''Darwin'' then triple = ''x86_64-apple-macosx''
           else \<exists>out. Proc [''clang'', ''--print-target-triple''] None (Exited 0 out) False
                        \<in> set (executed s') \<and> triple = strip out"
    by (rule get_build_target_Inr [OF 3])
  show ?thesis
    apply (rule exI [of _ bd], rule exI [of _ rel], rule exI [of _ triple])
    using 1 2 5 by (simp add: 4 run abspath_in_absolute)
qed

theorem bin_dir_layout_witness:
  "fst (clean_build_args (demo_host ''Linux'' []) (full_args\<lparr>release := Attr True\<rparr>)
          (demo_state [] Map.empty))
     = Inr (full_args\<lparr>release := Attr True,
               build_dir := Attr ''/work/tsc/.build'',
               swiftc_path := Attr (Some ''/usr/bin/swiftc''),
               target_dir := Attr ''/work/tsc/.build/x86_64-unknown-linux-gnu'',
               conf := Attr ''release'',
               bin_dir := Attr ''/work/tsc/.build/x86_64-unknown-linux-gnu/release''\<rparr>)
   \<and> (\<exists>triple. Attr ''/work/tsc/.build/x86_64-unknown-linux-gnu/release''
         = Attr (path_join (path_join (abspath_in ''/work/tsc'' ''.build'') triple) ''release''))"
proof -
  let ?h = "demo_host ''Linux'' []"
  let ?s = "demo_state [] Map.empty"
  let ?a = "full_args\<lparr>release := Attr True\<rparr>"
  let ?r = "full_args\<lparr>release := Attr True,
               build_dir := Attr ''/work/tsc/.build'',
               swiftc_path := Attr (Some ''/usr/bin/swiftc''),
               target_dir := Attr ''/work/tsc/.build/x86_64-unknown-linux-gnu'',
               conf := Attr ''release'',
               bin_dir := Attr ''/work/tsc/.build/x86_64-unknown-linux-gnu/release''\<rparr>"
  have run: "fst (clean_build_args ?h ?a ?s) = Inr ?r"
    by code_simp
  from bin_dir_layout [OF run] obtain bd rel triple where
    b: "build_dir ?a = Attr bd" and r: "release ?a = Attr rel"
    and d: "bin_dir ?r = Attr (path_join (path_join (abspath_in (os_getcwd ?h (world ?s)) bd) triple)
                                 (if rel then ''release'' else ''debug''))"
    by blast
  from b have "bd = ''.build''" by (simp add: full_args_def)
  moreover from r have "rel" by simp
  moreover have "os_getcwd ?h (world ?s) = ''/work/tsc''" by (simp add: demo_host_def)
  ultimately have "Attr ''/work/tsc/.build/x86_64-unknown-linux-gnu/release''
         = Attr (path_join (path_join (abspath_in ''/work/tsc'' ''.build'') triple) ''release'')"
    using d by simp
  with run show ?thesis by blast
qed

end
